theory Spec2Isabelle
  imports Main
begin

section \<open>Python values, errors and outcomes\<close>

text \<open>
  The layers of \<^verbatim>\<open>brainstorm/layers/python_layers.py\<close>. Every \<^verbatim>\<open>assert\<close> and every
  \<^verbatim>\<open>raise\<close> of the source is a value of \<open>error\<close>. The text of an assertion message
  is kept structured: \<open>Unexpected_kwargs ks\<close> stands for
  \<^verbatim>\<open>"Unexpected kwargs: {}".format(list(kwargs.keys()))\<close> and
  \<open>Unexpected_kwarg_for_FeedForwardLayer k\<close> for
  \<^verbatim>\<open>"Unexpected kwarg: {} for FeedForwardLayer".format(key)\<close>.
\<close>

datatype assertion_message =
    Unexpected_kwargs "string list"
  | Unexpected_kwarg_for_FeedForwardLayer string
  | InputLayer_cannot_have_an_in_size
  | For_NoOpLayer_in_and_out_size_must_be_equal

datatype type_error =
    Layer_type_unknown string  \<comment> \<open>\<^verbatim>\<open>"Layer-type '{}' unknown!".format(typename)\<close>\<close>
  | Lambda_takes_one_argument  \<comment> \<open>\<^verbatim>\<open>(lambda x: x)(a, b)\<close>\<close>
  | Int_not_callable           \<comment> \<open>\<^verbatim>\<open>1(...)\<close>\<close>
  | NoneType_not_callable      \<comment> \<open>\<^verbatim>\<open>None(...)\<close>\<close>
  | NoneType_not_a_dimension   \<comment> \<open>a shape tuple holding \<^verbatim>\<open>None\<close>\<close>

datatype error =
    AssertionError assertion_message
  | KeyError string
  | TypeError type_error
  | AttributeError string  \<comment> \<open>attribute access on \<^verbatim>\<open>None\<close>\<close>
  | ValueError             \<comment> \<open>tuple unpacking of a shape that has not three entries\<close>
  | ShapeError             \<comment> \<open>the numeric backend refusing operands whose shapes do not fit\<close>

text \<open>
  A method that mutates its arguments and may raise: \<open>Done s\<close> is a normal return in
  state \<open>s\<close>; \<open>Raised e s\<close> is the exception \<open>e\<close>, with \<open>s\<close> the state the writes made
  before the \<^verbatim>\<open>raise\<close> have left behind.
\<close>

datatype 's outcome = Done 's | Raised error 's

text \<open>
  \<^verbatim>\<open>kwargs\<close> is a dict from option names to strings, kept as an association list in
  iteration order; \<^verbatim>\<open>kwargs.keys()\<close> is \<open>map fst\<close>.
\<close>

type_synonym kwargs = "(string \<times> string) list"

definition keys :: "kwargs \<Rightarrow> string list" where
  "keys kw = map fst kw"

definition get_default :: "kwargs \<Rightarrow> string \<Rightarrow> string \<Rightarrow> string" where
  \<comment> \<open>\<^verbatim>\<open>kwargs.get(key, default)\<close>\<close>
  "get_default kw key dflt = (case map_of kw key of None \<Rightarrow> dflt | Some v \<Rightarrow> v)"

section \<open>Buffers and the numeric backend\<close>

text \<open>
  A buffer is an array with a \<^verbatim>\<open>.shape\<close> and its elements in row-major order.
\<close>

record 'a ndarray =
  shape :: "nat list"
  data :: "'a list"

text \<open>
  Modelled from the spec: the handler (the numeric backend of \<^verbatim>\<open>brainstorm.handlers\<close>)
  is not among the sources. Its activation functions are elementwise; a derivative has
  the signature \<^verbatim>\<open>deriv(input_or_none, output, out_delta, result_out)\<close> and the layer
  always passes \<^verbatim>\<open>None\<close> for the input, so per element it is a function of the output
  and the incoming delta. The functions themselves are parameters.
\<close>

record 'a handler =
  sigmoid :: "'a \<Rightarrow> 'a"
  sigmoid_deriv :: "'a \<Rightarrow> 'a \<Rightarrow> 'a"
  tanh :: "'a \<Rightarrow> 'a"
  tanh_deriv :: "'a \<Rightarrow> 'a \<Rightarrow> 'a"
  rel :: "'a \<Rightarrow> 'a"
  rel_deriv :: "'a \<Rightarrow> 'a \<Rightarrow> 'a"

text \<open>
  What \<^verbatim>\<open>self.act_func\<close> and \<^verbatim>\<open>self.act_func_deriv\<close> can hold: \<^verbatim>\<open>None\<close> (set by
  \<^verbatim>\<open>FeedForwardLayer.__init__\<close>), a bound method of the handler, and for
  \<^verbatim>\<open>'linear'\<close> the one-argument \<^verbatim>\<open>lambda x: x\<close> and the integer \<^verbatim>\<open>1\<close>.
\<close>

datatype 'a act_func_value =
    Act_None
  | Act_method "'a \<Rightarrow> 'a"
  | Act_lambda_x_x

datatype 'a act_func_deriv_value =
    Deriv_None
  | Deriv_method "'a \<Rightarrow> 'a \<Rightarrow> 'a"
  | Deriv_int_1

section \<open>The layer classes\<close>

datatype layer_class = C_LayerBase | C_InputLayer | C_NoOpLayer | C_FeedForwardLayer

text \<open>
  The attributes of a layer object. \<open>cls\<close> is the class the object was made from.
  Sizes are non-negative integers or \<^verbatim>\<open>None\<close>. Only a \<^verbatim>\<open>FeedForwardLayer\<close> has the
  attributes \<open>act_func\<close> and \<open>act_func_deriv\<close>; on the other classes the fields stay
  \<open>Act_None\<close> and \<open>Deriv_None\<close> and nothing reads them.
\<close>

record 'a layer =
  cls :: layer_class
  in_size :: "nat option"
  kwargs :: kwargs
  out_size :: "nat option"
  sink_layers :: "string list"
  source_layers :: "string list"
  handler :: "'a handler option"
  act_func :: "'a act_func_value"
  act_func_deriv :: "'a act_func_deriv_value"

subsection \<open>Construction\<close>

definition LayerBase_validate_kwargs :: "kwargs \<Rightarrow> error option" where
  \<comment> \<open>\<^verbatim>\<open>assert not kwargs, "Unexpected kwargs: {}".format(list(kwargs.keys()))\<close>\<close>
  "LayerBase_validate_kwargs kw =
     (if kw = [] then None else Some (AssertionError (Unexpected_kwargs (keys kw))))"

fun FeedForwardLayer_validate_keys :: "string list \<Rightarrow> error option" where
  \<comment> \<open>the loop \<^verbatim>\<open>for key in kwargs.keys(): assert key in ['act_func'], ...\<close>\<close>
  "FeedForwardLayer_validate_keys [] = None"
| "FeedForwardLayer_validate_keys (key # rest) =
     (if key \<in> set [''act_func''] then FeedForwardLayer_validate_keys rest
      else Some (AssertionError (Unexpected_kwarg_for_FeedForwardLayer key)))"

definition FeedForwardLayer_validate_kwargs :: "kwargs \<Rightarrow> error option" where
  "FeedForwardLayer_validate_kwargs kw = FeedForwardLayer_validate_keys (keys kw)"

definition validate_kwargs :: "layer_class \<Rightarrow> kwargs \<Rightarrow> error option" where
  \<comment> \<open>the classmethod, as \<^verbatim>\<open>self.validate_kwargs\<close> resolves it\<close>
  "validate_kwargs c kw =
     (case c of
        C_FeedForwardLayer \<Rightarrow> FeedForwardLayer_validate_kwargs kw
      | _ \<Rightarrow> LayerBase_validate_kwargs kw)"

definition get_output_size :: "nat option \<Rightarrow> nat option \<Rightarrow> kwargs \<Rightarrow> nat option" where
  \<comment> \<open>\<^verbatim>\<open>_get_output_size\<close>: \<^verbatim>\<open>size if size is not None else in_size\<close>\<close>
  "get_output_size sz insz kw = (case sz of Some s \<Rightarrow> Some s | None \<Rightarrow> insz)"

definition LayerBase_init ::
  "layer_class \<Rightarrow> nat option \<Rightarrow> nat option \<Rightarrow> string list \<Rightarrow> string list \<Rightarrow> kwargs
     \<Rightarrow> error + 'a layer" where
  "LayerBase_init c sz insz sinks sources kw =
     (case validate_kwargs c kw of
        Some e \<Rightarrow> Inl e
      | None \<Rightarrow>
          Inr \<lparr> cls = c, in_size = insz, kwargs = kw,
                out_size = get_output_size sz insz kw,
                sink_layers = sinks, source_layers = sources,
                handler = None, act_func = Act_None, act_func_deriv = Deriv_None \<rparr>)"

definition truthy :: "nat option \<Rightarrow> bool" where
  \<comment> \<open>Python truth of a size: \<^verbatim>\<open>None\<close> and \<^verbatim>\<open>0\<close> are false\<close>
  "truthy v = (case v of None \<Rightarrow> False | Some n \<Rightarrow> n \<noteq> 0)"

definition InputLayer_init ::
  "nat option \<Rightarrow> nat option \<Rightarrow> string list \<Rightarrow> string list \<Rightarrow> kwargs \<Rightarrow> error + 'a layer" where
  "InputLayer_init sz insz sinks sources kw =
     (case LayerBase_init C_InputLayer sz insz sinks sources kw of
        Inl e \<Rightarrow> Inl e
      | Inr self \<Rightarrow>
          if \<not> truthy insz then Inr self
          else Inl (AssertionError InputLayer_cannot_have_an_in_size))"

definition NoOpLayer_init ::
  "nat option \<Rightarrow> nat option \<Rightarrow> string list \<Rightarrow> string list \<Rightarrow> kwargs \<Rightarrow> error + 'a layer" where
  "NoOpLayer_init sz insz sinks sources kw =
     (case LayerBase_init C_NoOpLayer sz insz sinks sources kw of
        Inl e \<Rightarrow> Inl e
      | Inr self \<Rightarrow>
          if sz = insz then Inr self
          else Inl (AssertionError For_NoOpLayer_in_and_out_size_must_be_equal))"

definition FeedForwardLayer_init ::
  "nat option \<Rightarrow> nat option \<Rightarrow> string list \<Rightarrow> string list \<Rightarrow> kwargs \<Rightarrow> error + 'a layer" where
  "FeedForwardLayer_init sz insz sinks sources kw =
     (case LayerBase_init C_FeedForwardLayer sz insz sinks sources kw of
        Inl e \<Rightarrow> Inl e
      | Inr self \<Rightarrow>
          Inr (self\<lparr> act_func := Act_None, act_func_deriv := Deriv_None, kwargs := kw \<rparr>))"

definition instantiate ::
  "layer_class \<Rightarrow> nat option \<Rightarrow> nat option \<Rightarrow> string list \<Rightarrow> string list \<Rightarrow> kwargs
     \<Rightarrow> error + 'a layer" where
  \<comment> \<open>calling a class, \<^verbatim>\<open>layer_class(size, in_size, sink_layers, source_layers, kwargs)\<close>\<close>
  "instantiate c sz insz sinks sources kw =
     (case c of
        C_LayerBase \<Rightarrow> LayerBase_init C_LayerBase sz insz sinks sources kw
      | C_InputLayer \<Rightarrow> InputLayer_init sz insz sinks sources kw
      | C_NoOpLayer \<Rightarrow> NoOpLayer_init sz insz sinks sources kw
      | C_FeedForwardLayer \<Rightarrow> FeedForwardLayer_init sz insz sinks sources kw)"

subsection \<open>Parameter structure\<close>

text \<open>
  A declared shape is an integer (\<^verbatim>\<open>('b', self.out_size)\<close>) or a pair
  (\<^verbatim>\<open>('W', (self.in_size, self.out_size))\<close>).
\<close>

datatype shape_decl = Vector "nat option" | Matrix "nat option" "nat option"

definition get_parameter_structure :: "'a layer \<Rightarrow> (string \<times> shape_decl) list" where
  "get_parameter_structure self =
     (case cls self of
        C_FeedForwardLayer \<Rightarrow>
          [(''W'', Matrix (in_size self) (out_size self)), (''b'', Vector (out_size self))]
      | _ \<Rightarrow> [])"

section \<open>The handler's array operations\<close>

text \<open>
  Modelled from the spec: the handler's operations are not among the sources. The spec
  gives \<^verbatim>\<open>reshape(buffer, new_shape)\<close> (a view, not a copy), \<^verbatim>\<open>zeros(shape)\<close> (a
  zero-filled buffer), \<^verbatim>\<open>dot(A, B, out)\<close> (overwrite matrix multiply),
  \<^verbatim>\<open>dot_add(A, B, out)\<close> (accumulate matrix multiply), \<^verbatim>\<open>add_mv(matrix, vector, out)\<close>
  (broadcast-add a vector to every row) and \<^verbatim>\<open>sum(buffer, axis, out)\<close> (reduction along
  an axis, overwrite). An operation returns the new value of its \<^verbatim>\<open>out\<close> argument.
  The spec says nothing about operands whose shapes do not fit; the model raises
  \<open>ShapeError\<close> there and no theorem depends on it. Element \<open>(i, j)\<close> of a matrix with
  \<open>m\<close> columns is entry \<open>i * m + j\<close> of its data.
\<close>

definition H_reshape :: "'a ndarray \<Rightarrow> nat list \<Rightarrow> error + 'a ndarray" where
  \<comment> \<open>Modelled from the spec: \<^verbatim>\<open>reshape(buffer, new_shape)\<close>, a view on the same data\<close>
  "H_reshape buffer new_shape =
     (if prod_list new_shape = length (data buffer)
      then Inr (buffer\<lparr>shape := new_shape\<rparr>) else Inl ShapeError)"

definition write_through :: "'a ndarray \<Rightarrow> 'a ndarray \<Rightarrow> 'a ndarray" where
  \<comment> \<open>a write into a view is a write into the buffer it was reshaped from\<close>
  "write_through buffer view = buffer\<lparr>data := data view\<rparr>"

definition H_zeros :: "nat list \<Rightarrow> 'a::zero ndarray" where
  \<comment> \<open>Modelled from the spec: \<^verbatim>\<open>zeros(shape)\<close>, a zero-filled buffer\<close>
  "H_zeros shp = \<lparr>shape = shp, data = replicate (prod_list shp) 0\<rparr>"

definition table :: "nat \<Rightarrow> nat \<Rightarrow> (nat \<Rightarrow> nat \<Rightarrow> 'a) \<Rightarrow> 'a list" where
  \<comment> \<open>the row-major data of the \<open>n\<close> by \<open>m\<close> matrix with entries \<open>g i j\<close>\<close>
  "table n m g = concat (map (\<lambda>i. map (\<lambda>j. g i j) [0..<m]) [0..<n])"

definition matmul :: "nat \<Rightarrow> nat \<Rightarrow> nat \<Rightarrow> 'a::semiring_0 list \<Rightarrow> 'a list \<Rightarrow> 'a list" where
  \<comment> \<open>the product of an \<open>n\<close> by \<open>k\<close> and a \<open>k\<close> by \<open>m\<close> matrix\<close>
  "matmul n k m A B =
     table n m (\<lambda>i j. sum_list (map (\<lambda>l. A ! (i * k + l) * B ! (l * m + j)) [0..<k]))"

definition H_dot ::
  "'a::semiring_0 ndarray \<Rightarrow> 'a ndarray \<Rightarrow> 'a ndarray \<Rightarrow> error + 'a ndarray" where
  \<comment> \<open>Modelled from the spec: \<^verbatim>\<open>dot(A, B, out)\<close>, overwrite matrix multiply\<close>
  "H_dot A B out =
     (case (shape A, shape B, shape out) of
        ([n, k], [k', m], [n', m']) \<Rightarrow>
          if k = k' \<and> n = n' \<and> m = m'
          then Inr (out\<lparr>data := matmul n k m (data A) (data B)\<rparr>)
          else Inl ShapeError
      | _ \<Rightarrow> Inl ShapeError)"

definition H_dot_add ::
  "'a::semiring_0 ndarray \<Rightarrow> 'a ndarray \<Rightarrow> 'a ndarray \<Rightarrow> error + 'a ndarray" where
  \<comment> \<open>Modelled from the spec: \<^verbatim>\<open>dot_add(A, B, out)\<close>, accumulate matrix multiply\<close>
  "H_dot_add A B out =
     (case (shape A, shape B, shape out) of
        ([n, k], [k', m], [n', m']) \<Rightarrow>
          if k = k' \<and> n = n' \<and> m = m'
          then Inr (out\<lparr>data := map2 (+) (data out) (matmul n k m (data A) (data B))\<rparr>)
          else Inl ShapeError
      | _ \<Rightarrow> Inl ShapeError)"

definition H_add_mv ::
  "'a::semiring_0 ndarray \<Rightarrow> 'a ndarray \<Rightarrow> 'a ndarray \<Rightarrow> error + 'a ndarray" where
  \<comment> \<open>Modelled from the spec: \<^verbatim>\<open>add_mv(matrix, vector, out)\<close>, the vector added to
      every row\<close>
  "H_add_mv M v out =
     (case (shape M, shape v, shape out) of
        ([n, m], [m'], [n', m'']) \<Rightarrow>
          if m = m' \<and> n = n' \<and> m = m''
          then Inr (out\<lparr>data := table n m (\<lambda>i j. data M ! (i * m + j) + data v ! j)\<rparr>)
          else Inl ShapeError
      | _ \<Rightarrow> Inl ShapeError)"

definition H_sum ::
  "'a::semiring_0 ndarray \<Rightarrow> nat \<Rightarrow> 'a ndarray \<Rightarrow> error + 'a ndarray" where
  \<comment> \<open>Modelled from the spec: \<^verbatim>\<open>sum(buffer, axis, out)\<close>, reduction along an axis of
      a matrix, overwrite\<close>
  "H_sum A axis out =
     (case (shape A, shape out) of
        ([n, m], [m']) \<Rightarrow>
          if axis = 0 \<and> m = m'
          then Inr (out\<lparr>data := map (\<lambda>j. sum_list (map (\<lambda>i. data A ! (i * m + j)) [0..<n])) [0..<m]\<rparr>)
          else if axis = 1 \<and> n = m'
          then Inr (out\<lparr>data := map (\<lambda>i. sum_list (map (\<lambda>j. data A ! (i * m + j)) [0..<m])) [0..<n]\<rparr>)
          else Inl ShapeError
      | _ \<Rightarrow> Inl ShapeError)"

definition T :: "'a ndarray \<Rightarrow> 'a ndarray" where
  \<comment> \<open>Modelled from the spec: the attribute \<^verbatim>\<open>.T\<close> of a buffer (the spec's \<open>W\<^sup>T\<close> and
      \<open>input_flat\<^sup>T\<close>). Off two dimensions only the reversed shape is given: every
      operation that receives a transpose refuses such a shape.\<close>
  "T A =
     (case shape A of
        [r, c] \<Rightarrow> \<lparr>shape = [c, r], data = table c r (\<lambda>j i. data A ! (i * c + j))\<rparr>
      | _ \<Rightarrow> A\<lparr>shape := rev (shape A)\<rparr>)"

definition call_method :: "('a \<Rightarrow> 'a) \<Rightarrow> 'a ndarray \<Rightarrow> 'a ndarray \<Rightarrow> error + 'a ndarray" where
  \<comment> \<open>Modelled from the spec: an activation of the handler, \<^verbatim>\<open>H.tanh(x, out)\<close>,
      elementwise\<close>
  "call_method g x out =
     (if shape x = shape out then Inr (out\<lparr>data := map g (data x)\<rparr>) else Inl ShapeError)"

definition call_deriv_method ::
  "('a \<Rightarrow> 'a \<Rightarrow> 'a) \<Rightarrow> 'a ndarray \<Rightarrow> 'a ndarray \<Rightarrow> 'a ndarray \<Rightarrow> error + 'a ndarray" where
  \<comment> \<open>Modelled from the spec: a derivative of the handler,
      \<^verbatim>\<open>H.tanh_deriv(None, output, out_delta, result)\<close>, elementwise\<close>
  "call_deriv_method d output out_delta result =
     (if shape output = shape result \<and> shape out_delta = shape result
      then Inr (result\<lparr>data := map2 d (data output) (data out_delta)\<rparr>)
      else Inl ShapeError)"

section \<open>Binding a handler\<close>

definition LayerBase_set_handler :: "'a layer \<Rightarrow> 'a handler \<Rightarrow> 'a layer outcome" where
  "LayerBase_set_handler self new_handler = Done (self\<lparr>handler := Some new_handler\<rparr>)"

definition activation_functions ::
  "'a handler \<Rightarrow> (string \<times> 'a act_func_value \<times> 'a act_func_deriv_value) list" where
  "activation_functions H =
     [(''sigmoid'', (Act_method (sigmoid H), Deriv_method (sigmoid_deriv H))),
      (''tanh'', (Act_method (tanh H), Deriv_method (tanh_deriv H))),
      (''linear'', (Act_lambda_x_x, Deriv_int_1)),
      (''rel'', (Act_method (rel H), Deriv_method (rel_deriv H)))]"

definition FeedForwardLayer_set_handler :: "'a layer \<Rightarrow> 'a handler \<Rightarrow> 'a layer outcome" where
  "FeedForwardLayer_set_handler self new_handler =
     (let self1 = self\<lparr>handler := Some new_handler\<rparr>;
          name = get_default (kwargs self1) ''act_func'' ''tanh''
      in case map_of (activation_functions new_handler) name of
           None \<Rightarrow> Raised (KeyError name) self1
         | Some (f, d) \<Rightarrow> Done (self1\<lparr>act_func := f, act_func_deriv := d\<rparr>))"

definition set_handler :: "'a layer \<Rightarrow> 'a handler \<Rightarrow> 'a layer outcome" where
  "set_handler self new_handler =
     (case cls self of
        C_FeedForwardLayer \<Rightarrow> FeedForwardLayer_set_handler self new_handler
      | _ \<Rightarrow> LayerBase_set_handler self new_handler)"

section \<open>Forward and backward pass\<close>

text \<open>
  The buffers a pass receives. They belong to the caller and are taken to be distinct
  storage; a pass returns them as it leaves them.
\<close>

record 'a forward_buffers =
  parameters :: "string \<rightharpoonup> 'a ndarray"
  input_buffer :: "'a ndarray"
  output_buffer :: "'a ndarray"

record 'a backward_buffers = "'a forward_buffers" +
  in_delta_buffer :: "'a ndarray"
  out_delta_buffer :: "'a ndarray"
  gradient_buffer :: "string \<rightharpoonup> 'a ndarray"

definition or_raise :: "error + 'x \<Rightarrow> 's \<Rightarrow> ('x \<Rightarrow> 's outcome) \<Rightarrow> 's outcome" where
  \<comment> \<open>one statement of a method body: its exception leaves with the state so far\<close>
  "or_raise r s k = (case r of Inl e \<Rightarrow> Raised e s | Inr x \<Rightarrow> k x)"

definition getitem :: "(string \<rightharpoonup> 'v) \<Rightarrow> string \<Rightarrow> error + 'v" where
  "getitem d k = (case d k of None \<Rightarrow> Inl (KeyError k) | Some v \<Rightarrow> Inr v)"

definition unpack3 :: "nat list \<Rightarrow> error + nat \<times> nat \<times> nat" where
  \<comment> \<open>\<^verbatim>\<open>t, b, f = input_buffer.shape\<close>\<close>
  "unpack3 shp = (case shp of [t, b, f] \<Rightarrow> Inr (t, b, f) | _ \<Rightarrow> Inl ValueError)"

definition getattr :: "'a handler option \<Rightarrow> string \<Rightarrow> error + 'a handler" where
  \<comment> \<open>\<^verbatim>\<open>H.name\<close> where \<^verbatim>\<open>H\<close> may still be \<^verbatim>\<open>None\<close>\<close>
  "getattr H name = (case H of None \<Rightarrow> Inl (AttributeError name) | Some h \<Rightarrow> Inr h)"

definition dimension :: "nat option \<Rightarrow> error + nat" where
  \<comment> \<open>\<^verbatim>\<open>self.out_size\<close> used as an entry of a shape\<close>
  "dimension v = (case v of None \<Rightarrow> Inl (TypeError NoneType_not_a_dimension) | Some n \<Rightarrow> Inr n)"

definition call_act_func ::
  "'a act_func_value \<Rightarrow> 'a ndarray \<Rightarrow> 'a ndarray \<Rightarrow> error + 'a ndarray" where
  \<comment> \<open>\<^verbatim>\<open>self.act_func(flat_output, flat_output)\<close>\<close>
  "call_act_func f x out =
     (case f of
        Act_None \<Rightarrow> Inl (TypeError NoneType_not_callable)
      | Act_method g \<Rightarrow> call_method g x out
      | Act_lambda_x_x \<Rightarrow> Inl (TypeError Lambda_takes_one_argument))"

definition call_act_func_deriv ::
  "'a act_func_deriv_value \<Rightarrow> 'a ndarray \<Rightarrow> 'a ndarray \<Rightarrow> 'a ndarray \<Rightarrow> error + 'a ndarray" where
  \<comment> \<open>\<^verbatim>\<open>self.act_func_deriv(None, output_buffer, out_delta_buffer, dZ)\<close>\<close>
  "call_act_func_deriv d output out_delta result =
     (case d of
        Deriv_None \<Rightarrow> Inl (TypeError NoneType_not_callable)
      | Deriv_method g \<Rightarrow> call_deriv_method g output out_delta result
      | Deriv_int_1 \<Rightarrow> Inl (TypeError Int_not_callable))"

definition LayerBase_forward_pass ::
  "'a layer \<Rightarrow> 'a forward_buffers \<Rightarrow> ('a layer \<times> 'a forward_buffers) outcome" where
  "LayerBase_forward_pass self a = Done (self, a)"

definition LayerBase_backward_pass ::
  "'a layer \<Rightarrow> 'a backward_buffers \<Rightarrow> ('a layer \<times> 'a backward_buffers) outcome" where
  "LayerBase_backward_pass self a = Done (self, a)"

definition FeedForwardLayer_forward_pass ::
  "'a::semiring_0 layer \<Rightarrow> 'a forward_buffers \<Rightarrow> ('a layer \<times> 'a forward_buffers) outcome" where
  "FeedForwardLayer_forward_pass self a =
     (let H = handler self; s = (self, a) in
      or_raise (getitem (parameters a) ''W'') s (\<lambda>WX.
      or_raise (getitem (parameters a) ''b'') s (\<lambda>W_bias.
      or_raise (unpack3 (shape (input_buffer a))) s (\<lambda>(t, b, f).
      or_raise (getattr H ''reshape'') s (\<lambda>_.
      or_raise (H_reshape (input_buffer a) [t * b, f]) s (\<lambda>flat_input.
      or_raise (dimension (out_size self)) s (\<lambda>n_out.
      or_raise (H_reshape (output_buffer a) [t * b, n_out]) s (\<lambda>flat_output.
      or_raise (H_dot flat_input WX flat_output) s (\<lambda>flat_output1.
        let a1 = a\<lparr>output_buffer := write_through (output_buffer a) flat_output1\<rparr> in
      or_raise (H_add_mv flat_output1 W_bias flat_output1) (self, a1) (\<lambda>flat_output2.
        let a2 = a\<lparr>output_buffer := write_through (output_buffer a) flat_output2\<rparr> in
      or_raise (call_act_func (act_func self) flat_output2 flat_output2) (self, a2)
        (\<lambda>flat_output3.
        Done (self, a\<lparr>output_buffer := write_through (output_buffer a) flat_output3\<rparr>)
      )))))))))))"

definition FeedForwardLayer_backward_pass ::
  "'a::semiring_0 layer \<Rightarrow> 'a backward_buffers \<Rightarrow> ('a layer \<times> 'a backward_buffers) outcome" where
  "FeedForwardLayer_backward_pass self a =
     (let H = handler self; s = (self, a) in
      or_raise (getitem (parameters a) ''W'') s (\<lambda>WX.
      or_raise (getitem (parameters a) ''b'') s (\<lambda>W_bias.
      or_raise (getitem (gradient_buffer a) ''W'') s (\<lambda>dWX.
      or_raise (getitem (gradient_buffer a) ''b'') s (\<lambda>dW_bias.
      or_raise (getattr H ''zeros'') s (\<lambda>_.
        let dZ = H_zeros (shape (output_buffer a)) in
      or_raise (unpack3 (shape (input_buffer a))) s (\<lambda>(t, b, f).
      or_raise (H_reshape (input_buffer a) [t * b, f]) s (\<lambda>flat_input.
      or_raise (dimension (out_size self)) s (\<lambda>n_out.
      or_raise (H_reshape dZ [t * b, n_out]) s (\<lambda>flat_dZ0.
      or_raise (H_reshape (in_delta_buffer a) [t * b, f]) s (\<lambda>flat_in_delta_buffer.
      or_raise (call_act_func_deriv (act_func_deriv self)
                  (output_buffer a) (out_delta_buffer a) dZ) s (\<lambda>dZ1.
        let flat_dZ = write_through flat_dZ0 dZ1 in
      or_raise (H_dot_add flat_dZ (T WX) flat_in_delta_buffer) s (\<lambda>flat_in_delta1.
        let a1 = a\<lparr>in_delta_buffer := write_through (in_delta_buffer a) flat_in_delta1\<rparr> in
      or_raise (H_dot (T flat_input) flat_dZ dWX) (self, a1) (\<lambda>dWX1.
        let a2 = a1\<lparr>gradient_buffer := (gradient_buffer a1)(''W'' \<mapsto> dWX1)\<rparr> in
      or_raise (H_sum flat_dZ 0 dW_bias) (self, a2) (\<lambda>dW_bias1.
        Done (self, a2\<lparr>gradient_buffer := (gradient_buffer a2)(''b'' \<mapsto> dW_bias1)\<rparr>)
      )))))))))))))))"

definition forward_pass ::
  "'a::semiring_0 layer \<Rightarrow> 'a forward_buffers \<Rightarrow> ('a layer \<times> 'a forward_buffers) outcome" where
  "forward_pass self a =
     (case cls self of
        C_FeedForwardLayer \<Rightarrow> FeedForwardLayer_forward_pass self a
      | _ \<Rightarrow> LayerBase_forward_pass self a)"

definition backward_pass ::
  "'a::semiring_0 layer \<Rightarrow> 'a backward_buffers \<Rightarrow> ('a layer \<times> 'a backward_buffers) outcome" where
  "backward_pass self a =
     (case cls self of
        C_FeedForwardLayer \<Rightarrow> FeedForwardLayer_backward_pass self a
      | _ \<Rightarrow> LayerBase_backward_pass self a)"

section \<open>The registry\<close>

text \<open>
  A class object: its \<^verbatim>\<open>__name__\<close> and its direct subclasses
  (\<^verbatim>\<open>cls.__subclasses__()\<close>), each with its own.
\<close>

datatype pyclass = PyClass (name: string) (subclasses: "pyclass list")

text \<open>
  Modelled from the spec: \<^verbatim>\<open>get_inheritors\<close> of \<^verbatim>\<open>brainstorm.utils\<close> is not among the
  sources. The spec has the registry scan "all concrete subclasses (direct and
  transitive) of the layer contract", the contract type itself excluded.
\<close>

fun get_inheritors :: "pyclass \<Rightarrow> pyclass list" where
  \<comment> \<open>Modelled from the spec: \<^verbatim>\<open>get_inheritors(cls)\<close>, the direct and transitive
      subclasses of \<^verbatim>\<open>cls\<close>\<close>
  "get_inheritors (PyClass n subs) = concat (map (\<lambda>c. c # get_inheritors c) subs)"

fun first_named :: "string \<Rightarrow> pyclass list \<Rightarrow> error + pyclass" where
  \<comment> \<open>the \<^verbatim>\<open>for ... else\<close> loop of \<^verbatim>\<open>get_layer_class_from_typename\<close>\<close>
  "first_named typename [] = Inl (TypeError (Layer_type_unknown typename))"
| "first_named typename (layer_class # rest) =
     (if typename = name layer_class then Inr layer_class else first_named typename rest)"

definition get_layer_class_from_typename :: "pyclass \<Rightarrow> string \<Rightarrow> error + pyclass" where
  \<comment> \<open>the first argument is the class object \<^verbatim>\<open>LayerBase\<close> with the subclasses alive\<close>
  "get_layer_class_from_typename LayerBase typename =
     first_named typename (get_inheritors LayerBase)"

definition LayerBase_class :: pyclass where
  \<comment> \<open>the hierarchy this module declares\<close>
  "LayerBase_class =
     PyClass ''LayerBase''
       [PyClass ''InputLayer'' [], PyClass ''NoOpLayer'' [], PyClass ''FeedForwardLayer'' []]"

section \<open>The words of the specification\<close>

text \<open>
  The set of keys a class accepts in \<^verbatim>\<open>kwargs\<close>, as the specification lists it, and
  what it means for an assertion message to name a key.
\<close>

definition allowed_keys :: "layer_class \<Rightarrow> string set" where
  "allowed_keys c = (if c = C_FeedForwardLayer then {''act_func''} else {})"

fun names_key :: "assertion_message \<Rightarrow> string \<Rightarrow> bool" where
  "names_key (Unexpected_kwargs ks) k = (k \<in> set ks)"
| "names_key (Unexpected_kwarg_for_FeedForwardLayer k') k = (k = k')"
| "names_key _ k = False"

text \<open>
  The formulas of the specification for the fully connected layer, on row-major data:
  \<open>act_func (input \<cdot> W + b)\<close> for \<open>n\<close> rows, \<open>dZ \<cdot> W\<^sup>T\<close>, \<open>input\<^sup>T \<cdot> dZ\<close> and the
  column sums of \<open>dZ\<close>.
\<close>

definition affine_activation ::
  "('a \<Rightarrow> 'a) \<Rightarrow> nat \<Rightarrow> nat \<Rightarrow> nat \<Rightarrow> 'a::semiring_0 list \<Rightarrow> 'a list \<Rightarrow> 'a list \<Rightarrow> 'a list" where
  \<comment> \<open>\<open>X\<close> is \<open>n\<close> by \<open>k\<close>, \<open>W\<close> is \<open>k\<close> by \<open>m\<close>, the bias has \<open>m\<close> entries\<close>
  "affine_activation g n k m X W bias =
     table n m (\<lambda>r c.
       g (sum_list (map (\<lambda>l. X ! (r * k + l) * W ! (l * m + c)) [0..<k]) + bias ! c))"

definition times_transposed ::
  "nat \<Rightarrow> nat \<Rightarrow> nat \<Rightarrow> 'a::semiring_0 list \<Rightarrow> 'a list \<Rightarrow> 'a list" where
  \<comment> \<open>\<open>A \<cdot> B\<^sup>T\<close> for \<open>A\<close> of \<open>n\<close> by \<open>k\<close> and \<open>B\<close> of \<open>m\<close> by \<open>k\<close>\<close>
  "times_transposed n k m A B =
     table n m (\<lambda>r l. sum_list (map (\<lambda>c. A ! (r * k + c) * B ! (l * k + c)) [0..<k]))"

definition transposed_times ::
  "nat \<Rightarrow> nat \<Rightarrow> nat \<Rightarrow> 'a::semiring_0 list \<Rightarrow> 'a list \<Rightarrow> 'a list" where
  \<comment> \<open>\<open>A\<^sup>T \<cdot> B\<close> for \<open>A\<close> of \<open>n\<close> by \<open>k\<close> and \<open>B\<close> of \<open>n\<close> by \<open>m\<close>\<close>
  "transposed_times n k m A B =
     table k m (\<lambda>l c. sum_list (map (\<lambda>r. A ! (r * k + l) * B ! (r * m + c)) [0..<n]))"

definition column_sums :: "nat \<Rightarrow> nat \<Rightarrow> 'a::semiring_0 list \<Rightarrow> 'a list" where
  "column_sums n m A = map (\<lambda>c. sum_list (map (\<lambda>r. A ! (r * m + c)) [0..<n])) [0..<m]"

section \<open>Example layers and buffers\<close>

definition example_handler :: "int handler" where
  \<comment> \<open>a handler over the integers: \<open>rel\<close> is the rectifier, the other two activations
      are integer stand-ins (a clamp to \<open>[0, 1]\<close> and to \<open>[-1, 1]\<close>)\<close>
  "example_handler =
     \<lparr> sigmoid = (\<lambda>x. max 0 (min 1 x)),
       sigmoid_deriv = (\<lambda>y d. y * (1 - y) * d),
       tanh = (\<lambda>x. max (- 1) (min 1 x)),
       tanh_deriv = (\<lambda>y d. (1 - y * y) * d),
       rel = (\<lambda>x. max 0 x),
       rel_deriv = (\<lambda>y d. if 0 < y then d else 0) \<rparr>"

definition linear_layer :: "int handler \<Rightarrow> nat \<Rightarrow> nat \<Rightarrow> int layer" where
  \<comment> \<open>a \<^verbatim>\<open>FeedForwardLayer\<close> with \<^verbatim>\<open>{'act_func': 'linear'}\<close> after \<^verbatim>\<open>set_handler(H)\<close>\<close>
  "linear_layer H n_in n_out =
     \<lparr> cls = C_FeedForwardLayer, in_size = Some n_in, kwargs = [(''act_func'', ''linear'')],
       out_size = Some n_out, sink_layers = [], source_layers = [], handler = Some H,
       act_func = Act_lambda_x_x, act_func_deriv = Deriv_int_1 \<rparr>"

definition rel_layer :: "int handler \<Rightarrow> nat \<Rightarrow> nat \<Rightarrow> int layer" where
  \<comment> \<open>a \<^verbatim>\<open>FeedForwardLayer\<close> with \<^verbatim>\<open>{'act_func': 'rel'}\<close> after \<^verbatim>\<open>set_handler(H)\<close>\<close>
  "rel_layer H n_in n_out =
     \<lparr> cls = C_FeedForwardLayer, in_size = Some n_in, kwargs = [(''act_func'', ''rel'')],
       out_size = Some n_out, sink_layers = [], source_layers = [], handler = Some H,
       act_func = Act_method (rel H), act_func_deriv = Deriv_method (rel_deriv H) \<rparr>"

definition identity_padded :: "int ndarray" where
  "identity_padded = \<lparr>shape = [3, 4], data = [1, 0, 0, 0,  0, 1, 0, 0,  0, 0, 1, 0]\<rparr>"

definition example_forward :: "int list \<Rightarrow> int forward_buffers" where
  \<comment> \<open>an input of shape \<open>(1, 1, 3)\<close>, \<open>W\<close> the padded identity, \<open>b\<close> zero\<close>
  "example_forward out =
     \<lparr> parameters = [''W'' \<mapsto> identity_padded, ''b'' \<mapsto> \<lparr>shape = [4], data = [0, 0, 0, 0]\<rparr>],
       input_buffer = \<lparr>shape = [1, 1, 3], data = [5, 6, 7]\<rparr>,
       output_buffer = \<lparr>shape = [1, 1, 4], data = out\<rparr> \<rparr>"

definition example_backward :: "int list \<Rightarrow> int backward_buffers" where
  "example_backward out_delta =
     \<lparr> parameters = [''W'' \<mapsto> identity_padded, ''b'' \<mapsto> \<lparr>shape = [4], data = [0, 0, 0, 0]\<rparr>],
       input_buffer = \<lparr>shape = [1, 1, 3], data = [5, 6, 7]\<rparr>,
       output_buffer = \<lparr>shape = [1, 1, 4], data = [5, 6, 7, 0]\<rparr>,
       in_delta_buffer = \<lparr>shape = [1, 1, 3], data = [0, 0, 0]\<rparr>,
       out_delta_buffer = \<lparr>shape = [1, 1, 4], data = out_delta\<rparr>,
       gradient_buffer = [''W'' \<mapsto> \<lparr>shape = [3, 4], data = replicate 12 0\<rparr>,
                          ''b'' \<mapsto> \<lparr>shape = [4], data = [0, 0, 0, 0]\<rparr>] \<rparr>"

definition example_batch :: "int list \<Rightarrow> int forward_buffers" where
  \<comment> \<open>two time steps, batch size one, two features in and out\<close>
  "example_batch out =
     \<lparr> parameters = [''W'' \<mapsto> \<lparr>shape = [2, 2], data = [1, 2, 3, 4]\<rparr>,
                     ''b'' \<mapsto> \<lparr>shape = [2], data = [- 10, 20]\<rparr>],
       input_buffer = \<lparr>shape = [2, 1, 2], data = [1, 2, 3, 4]\<rparr>,
       output_buffer = \<lparr>shape = [2, 1, 2], data = out\<rparr> \<rparr>"

section \<open>Construction\<close>

lemma FeedForwardLayer_validate_keys_valid:
  "set ks \<subseteq> {''act_func''} \<Longrightarrow> FeedForwardLayer_validate_keys ks = None"
  by (induction ks) auto

lemma FeedForwardLayer_validate_keys_first:
  "k \<in> set ks \<Longrightarrow> k \<noteq> ''act_func'' \<Longrightarrow>
   \<exists>k'. List.find (\<lambda>x. x \<noteq> ''act_func'') ks = Some k' \<and>
     FeedForwardLayer_validate_keys ks
       = Some (AssertionError (Unexpected_kwarg_for_FeedForwardLayer k'))"
  by (induction ks) auto

lemma validate_kwargs_first_offending:
  assumes "k \<in> set (keys kw)" "k \<notin> allowed_keys c"
  shows "\<exists>msg k'. validate_kwargs c kw = Some (AssertionError msg)
     \<and> List.find (\<lambda>x. x \<notin> allowed_keys c) (keys kw) = Some k' \<and> names_key msg k'
     \<and> (c \<noteq> C_FeedForwardLayer \<longrightarrow> msg = Unexpected_kwargs (keys kw))
     \<and> (c = C_FeedForwardLayer \<longrightarrow> msg = Unexpected_kwarg_for_FeedForwardLayer k')"
proof (cases "c = C_FeedForwardLayer")
  case True
  with assms have "k \<noteq> ''act_func''" by (simp add: allowed_keys_def)
  from FeedForwardLayer_validate_keys_first [OF assms(1) this]
  obtain k' where "List.find (\<lambda>x. x \<noteq> ''act_func'') (keys kw) = Some k'"
    "FeedForwardLayer_validate_keys (keys kw)
       = Some (AssertionError (Unexpected_kwarg_for_FeedForwardLayer k'))"
    by blast
  with True show ?thesis
    by (simp add: validate_kwargs_def FeedForwardLayer_validate_kwargs_def allowed_keys_def)
next
  case False
  from assms(1) obtain k0 rest where ks: "keys kw = k0 # rest" by (cases "keys kw") auto
  then have "kw \<noteq> []" by (auto simp: keys_def)
  with False ks show ?thesis
    by (cases c) (simp_all add: validate_kwargs_def LayerBase_validate_kwargs_def allowed_keys_def)
qed

text \<open>
  Claim C6, as amended. For every layer class and every \<^verbatim>\<open>kwargs\<close> that holds a key
  outside the class's allowed keys (none for \<^verbatim>\<open>LayerBase\<close>, \<^verbatim>\<open>InputLayer\<close> and
  \<^verbatim>\<open>NoOpLayer\<close>, only \<^verbatim>\<open>act_func\<close> for \<^verbatim>\<open>FeedForwardLayer\<close>), construction fails with
  an \<^verbatim>\<open>AssertionError\<close> whose message names the first offending key in iteration
  order. The message of \<^verbatim>\<open>LayerBase\<close>, \<^verbatim>\<open>InputLayer\<close> and \<^verbatim>\<open>NoOpLayer\<close> lists every key
  of \<^verbatim>\<open>kwargs\<close>, so it names each offending key; the message of \<^verbatim>\<open>FeedForwardLayer\<close>
  names the first offending key and no other.
\<close>

theorem unknown_kwarg_fails:
  assumes "k \<in> set (keys kw)" "k \<notin> allowed_keys c"
  shows "\<exists>msg k'. (instantiate c sz insz sinks sources kw :: error + 'a layer)
                     = Inl (AssertionError msg)
     \<and> List.find (\<lambda>x. x \<notin> allowed_keys c) (keys kw) = Some k'
     \<and> names_key msg k' \<and> k' \<in> set (keys kw) \<and> k' \<notin> allowed_keys c
     \<and> (c \<noteq> C_FeedForwardLayer \<longrightarrow> msg = Unexpected_kwargs (keys kw) \<and> names_key msg k)
     \<and> (c = C_FeedForwardLayer \<longrightarrow>
          msg = Unexpected_kwarg_for_FeedForwardLayer k' \<and> (names_key msg k \<longleftrightarrow> k = k'))"
proof -
  from validate_kwargs_first_offending [OF assms]
  obtain msg k' where *: "validate_kwargs c kw = Some (AssertionError msg)"
    "List.find (\<lambda>x. x \<notin> allowed_keys c) (keys kw) = Some k'" "names_key msg k'"
    "c \<noteq> C_FeedForwardLayer \<longrightarrow> msg = Unexpected_kwargs (keys kw)"
    "c = C_FeedForwardLayer \<longrightarrow> msg = Unexpected_kwarg_for_FeedForwardLayer k'"
    by blast
  have fails: "(instantiate c sz insz sinks sources kw :: error + 'a layer)
      = Inl (AssertionError msg)"
    using *(1)
    by (cases c) (simp_all add: instantiate_def LayerBase_init_def InputLayer_init_def
        NoOpLayer_init_def FeedForwardLayer_init_def)
  from *(2) have k': "k' \<in> set (keys kw)" "k' \<notin> allowed_keys c"
    by (auto simp: find_Some_iff)
  from *(4) assms(1) have base: "c \<noteq> C_FeedForwardLayer \<longrightarrow> names_key msg k" by auto
  from *(5) have ff: "c = C_FeedForwardLayer \<longrightarrow> (names_key msg k \<longleftrightarrow> k = k')" by auto
  from fails * k' base ff show ?thesis by blast
qed

theorem unknown_kwarg_fails_witness:
  "(instantiate C_FeedForwardLayer (Some 4) (Some 3) [] []
      [(''act_func'', ''tanh''), (''bias'', ''no''), (''foo'', ''x'')] :: error + int layer)
     = Inl (AssertionError (Unexpected_kwarg_for_FeedForwardLayer ''bias''))
   \<and> ''foo'' \<in> set (keys [(''act_func'', ''tanh''), (''bias'', ''no''), (''foo'', ''x'')])
   \<and> ''foo'' \<notin> allowed_keys C_FeedForwardLayer"
  using unknown_kwarg_fails [of "''foo''"
      "[(''act_func'', ''tanh''), (''bias'', ''no''), (''foo'', ''x'')]"
      C_FeedForwardLayer "Some 4" "Some 3" "[]" "[]", where ?'a = int]
  by (auto simp: keys_def allowed_keys_def)

text \<open>
  The claim as it was stated, that the message names the offending key whichever it
  is, fails for \<^verbatim>\<open>FeedForwardLayer(4, 3, [], [], {'bias': 'no', 'foo': 'x'})\<close>: the loop
  asserts at \<^verbatim>\<open>bias\<close>, and the message does not name the offending key \<^verbatim>\<open>foo\<close>.
\<close>

theorem unknown_kwarg_second_key_counterexample:
  "(instantiate C_FeedForwardLayer (Some 4) (Some 3) [] []
      [(''bias'', ''no''), (''foo'', ''x'')] :: error + int layer)
     = Inl (AssertionError (Unexpected_kwarg_for_FeedForwardLayer ''bias''))
   \<and> ''foo'' \<in> set (keys [(''bias'', ''no''), (''foo'', ''x'')])
   \<and> ''foo'' \<notin> allowed_keys C_FeedForwardLayer
   \<and> \<not> names_key (Unexpected_kwarg_for_FeedForwardLayer ''bias'') ''foo''"
  by (simp add: instantiate_def FeedForwardLayer_init_def LayerBase_init_def validate_kwargs_def
      FeedForwardLayer_validate_kwargs_def keys_def allowed_keys_def)

text \<open>
  Claim C7, as amended. Constructing an \<^verbatim>\<open>InputLayer\<close> fails whenever a non-empty
  \<^verbatim>\<open>in_size\<close> (neither \<^verbatim>\<open>None\<close> nor \<^verbatim>\<open>0\<close>) is supplied; with empty \<^verbatim>\<open>kwargs\<close> it
  succeeds when \<^verbatim>\<open>in_size\<close> is \<^verbatim>\<open>None\<close>, and then \<^verbatim>\<open>out_size\<close> is the given size.
\<close>

theorem InputLayer_in_size:
  "(truthy insz \<longrightarrow>
      (\<exists>e. (InputLayer_init sz insz sinks sources kw :: error + 'a layer) = Inl e))
   \<and> (kw = [] \<longrightarrow>
      (\<exists>self. (InputLayer_init sz None sinks sources kw :: error + 'a layer) = Inr self
          \<and> out_size self = sz))"
  by (auto simp: InputLayer_init_def LayerBase_init_def validate_kwargs_def
      LayerBase_validate_kwargs_def get_output_size_def truthy_def split: option.splits)

theorem InputLayer_in_size_witness:
  "truthy (Some 3)
   \<and> (\<exists>e. (InputLayer_init (Some 5) (Some 3) [] [] [] :: error + int layer) = Inl e)
   \<and> (\<exists>self. (InputLayer_init (Some 5) None [] [] [] :: error + int layer) = Inr self
          \<and> out_size self = Some 5)"
  using InputLayer_in_size [of "Some 3" "Some 5" "[]" "[]" "[]", where ?'a = int]
  by (simp add: truthy_def)

text \<open>
  The claim as it was stated, that construction succeeds whenever \<^verbatim>\<open>in_size\<close> is
  \<^verbatim>\<open>None\<close>, fails for \<^verbatim>\<open>InputLayer(5, None, [], [], {'name': 'in'})\<close>: the keys are
  checked first.
\<close>

theorem InputLayer_kwargs_counterexample:
  "\<not> (\<exists>self. (InputLayer_init (Some 5) None [] [] [(''name'', ''in'')] :: error + int layer)
               = Inr self)"
  by (simp add: InputLayer_init_def LayerBase_init_def validate_kwargs_def
      LayerBase_validate_kwargs_def keys_def)

text \<open>
  Claim C2, as amended. For every construction of a \<^verbatim>\<open>NoOpLayer\<close> with empty \<^verbatim>\<open>kwargs\<close>
  and a size that is given, construction succeeds if and only if \<^verbatim>\<open>out_size\<close> (which is
  then the size) equals \<^verbatim>\<open>in_size\<close>, and the layer made has equal \<^verbatim>\<open>out_size\<close> and
  \<^verbatim>\<open>in_size\<close>; \<^verbatim>\<open>NoOpLayer(4, 4)\<close> succeeds with \<^verbatim>\<open>out_size == 4\<close> and
  \<^verbatim>\<open>NoOpLayer(4, 5)\<close> fails.
\<close>

theorem NoOpLayer_sizes:
  "((\<exists>self. (NoOpLayer_init (Some s) insz sinks sources [] :: error + 'a layer) = Inr self)
       \<longleftrightarrow> get_output_size (Some s) insz [] = insz)
   \<and> (\<forall>self. (NoOpLayer_init (Some s) insz sinks sources [] :: error + 'a layer) = Inr self
         \<longrightarrow> out_size self = Some s \<and> in_size self = out_size self)
   \<and> (\<exists>self. (NoOpLayer_init (Some 4) (Some 4) sinks sources [] :: error + 'a layer) = Inr self
         \<and> out_size self = Some 4)
   \<and> (\<exists>e. (NoOpLayer_init (Some 4) (Some 5) sinks sources [] :: error + 'a layer) = Inl e)"
  by (auto simp: NoOpLayer_init_def LayerBase_init_def validate_kwargs_def
      LayerBase_validate_kwargs_def get_output_size_def split: option.splits)

theorem NoOpLayer_sizes_witness:
  "(\<exists>self. (NoOpLayer_init (Some 7) (Some 7) [] [] [] :: error + int layer) = Inr self
      \<and> out_size self = Some 7 \<and> in_size self = out_size self)
   \<and> get_output_size (Some 7) (Some 7) [] = Some 7"
  using NoOpLayer_sizes [of 7 "Some 7" "[]" "[]", where ?'a = int]
  by (auto simp: get_output_size_def)

text \<open>
  The claim as it was stated fails for
  \<^verbatim>\<open>NoOpLayer(4, 4, [], [], {'name': 'id'})\<close>: \<^verbatim>\<open>out_size\<close> would equal \<^verbatim>\<open>in_size\<close>, yet
  the keys are checked first and construction fails.
\<close>

theorem NoOpLayer_kwargs_counterexample:
  "\<not> ((\<exists>self. (NoOpLayer_init (Some 4) (Some 4) [] [] [(''name'', ''id'')] :: error + int layer)
                = Inr self)
        \<longleftrightarrow> get_output_size (Some 4) (Some 4) [(''name'', ''id'')] = Some 4)"
  by (simp add: NoOpLayer_init_def LayerBase_init_def validate_kwargs_def
      LayerBase_validate_kwargs_def keys_def get_output_size_def)

text \<open>
  When the size is left out the assertion compares \<^verbatim>\<open>None\<close> with \<^verbatim>\<open>in_size\<close>:
  \<^verbatim>\<open>NoOpLayer(None, 4, [], [], {})\<close> fails although \<^verbatim>\<open>out_size\<close> would be \<^verbatim>\<open>4\<close>.
\<close>

lemma NoOpLayer_size_None_fails:
  "(NoOpLayer_init None (Some 4) [] [] [] :: error + int layer)
     = Inl (AssertionError For_NoOpLayer_in_and_out_size_must_be_equal)
   \<and> get_output_size None (Some 4) [] = Some 4"
  by (simp add: NoOpLayer_init_def LayerBase_init_def validate_kwargs_def
      LayerBase_validate_kwargs_def get_output_size_def)

text \<open>
  Claim C5. A \<^verbatim>\<open>FeedForwardLayer\<close> constructed with size 4, \<^verbatim>\<open>in_size\<close> 3 and any valid
  \<^verbatim>\<open>kwargs\<close> has the parameter structure \<^verbatim>\<open>[('W', (3, 4)), ('b', 4)]\<close>; every
  \<^verbatim>\<open>FeedForwardLayer\<close> has \<^verbatim>\<open>[('W', (in_size, out_size)), ('b', out_size)]\<close>, with
  \<^verbatim>\<open>in_size\<close> and \<^verbatim>\<open>out_size\<close> as construction has set them.
\<close>

theorem FeedForwardLayer_parameter_structure:
  "(set (keys kw) \<subseteq> {''act_func''} \<longrightarrow>
      (\<exists>self. (FeedForwardLayer_init (Some 4) (Some 3) sinks sources kw :: error + 'a layer)
                = Inr self
         \<and> get_parameter_structure self
             = [(''W'', Matrix (Some 3) (Some 4)), (''b'', Vector (Some 4))]))
   \<and> ((FeedForwardLayer_init sz insz sinks sources kw :: error + 'a layer) = Inr self' \<longrightarrow>
        cls self' = C_FeedForwardLayer
        \<and> in_size self' = insz \<and> out_size self' = get_output_size sz insz kw)
   \<and> (cls (layer :: 'a layer) = C_FeedForwardLayer \<longrightarrow>
        get_parameter_structure layer
          = [(''W'', Matrix (in_size layer) (out_size layer)), (''b'', Vector (out_size layer))])"
  by (auto simp: FeedForwardLayer_init_def LayerBase_init_def validate_kwargs_def
      FeedForwardLayer_validate_kwargs_def FeedForwardLayer_validate_keys_valid
      get_parameter_structure_def get_output_size_def split: option.splits)

theorem FeedForwardLayer_parameter_structure_witness:
  "set (keys [(''act_func'', ''rel'')]) \<subseteq> {''act_func''}
   \<and> (\<exists>self. (FeedForwardLayer_init (Some 4) (Some 3) [] [] [(''act_func'', ''rel'')]
                 :: error + int layer) = Inr self
         \<and> get_parameter_structure self
             = [(''W'', Matrix (Some 3) (Some 4)), (''b'', Vector (Some 4))])"
  using FeedForwardLayer_parameter_structure
    [of "[(''act_func'', ''rel'')]" "[]" "[]" "Some 4" "Some 3" "linear_layer example_handler 3 4"
      "linear_layer example_handler 3 4"]
  by (simp add: keys_def)

section \<open>Binding a handler\<close>

text \<open>
  Claim C8. For every \<^verbatim>\<open>FeedForwardLayer\<close>, \<^verbatim>\<open>set_handler\<close> binds the handler and takes
  the pair \<^verbatim>\<open>(act_func, act_func_deriv)\<close> from the table with the keys \<^verbatim>\<open>sigmoid\<close>,
  \<^verbatim>\<open>tanh\<close>, \<^verbatim>\<open>linear\<close> and \<^verbatim>\<open>rel\<close> at \<^verbatim>\<open>kwargs.get('act_func', 'tanh')\<close>: without an
  \<^verbatim>\<open>act_func\<close> entry the \<^verbatim>\<open>tanh\<close> pair of the new handler is selected, and for every name
  outside the table the call fails with a \<^verbatim>\<open>KeyError\<close> for that name.
\<close>

theorem FeedForwardLayer_set_handler_table:
  assumes "cls self = C_FeedForwardLayer"
  shows "(map_of (kwargs self) ''act_func'' = None
            \<or> map_of (kwargs self) ''act_func'' = Some ''tanh'' \<longrightarrow>
           set_handler self H
             = Done (self\<lparr>handler := Some H, act_func := Act_method (tanh H),
                          act_func_deriv := Deriv_method (tanh_deriv H)\<rparr>))
       \<and> (map_of (kwargs self) ''act_func'' = Some ''sigmoid'' \<longrightarrow>
           set_handler self H
             = Done (self\<lparr>handler := Some H, act_func := Act_method (sigmoid H),
                          act_func_deriv := Deriv_method (sigmoid_deriv H)\<rparr>))
       \<and> (map_of (kwargs self) ''act_func'' = Some ''rel'' \<longrightarrow>
           set_handler self H
             = Done (self\<lparr>handler := Some H, act_func := Act_method (rel H),
                          act_func_deriv := Deriv_method (rel_deriv H)\<rparr>))
       \<and> (map_of (kwargs self) ''act_func'' = Some ''linear'' \<longrightarrow>
           set_handler self H
             = Done (self\<lparr>handler := Some H, act_func := Act_lambda_x_x,
                          act_func_deriv := Deriv_int_1\<rparr>))
       \<and> (map_of (kwargs self) ''act_func'' = Some n
            \<and> n \<notin> {''sigmoid'', ''tanh'', ''linear'', ''rel''} \<longrightarrow>
           set_handler self H = Raised (KeyError n) (self\<lparr>handler := Some H\<rparr>))"
  using assms
  by (auto simp: set_handler_def FeedForwardLayer_set_handler_def get_default_def
      activation_functions_def Let_def)

theorem FeedForwardLayer_set_handler_table_witness:
  "\<exists>self. (FeedForwardLayer_init (Some 4) (Some 3) [] [] [] :: error + int layer) = Inr self
     \<and> cls self = C_FeedForwardLayer
     \<and> map_of (kwargs self) ''act_func'' = None
     \<and> set_handler self example_handler
         = Done (self\<lparr>handler := Some example_handler,
                      act_func := Act_method (tanh example_handler),
                      act_func_deriv := Deriv_method (tanh_deriv example_handler)\<rparr>)"
  using FeedForwardLayer_set_handler_table
    [of "\<lparr> cls = C_FeedForwardLayer, in_size = Some 3, kwargs = [],
            out_size = Some 4, sink_layers = [], source_layers = [], handler = None,
            act_func = Act_None, act_func_deriv = Deriv_None \<rparr>" example_handler]
  by (simp add: FeedForwardLayer_init_def LayerBase_init_def validate_kwargs_def
      FeedForwardLayer_validate_kwargs_def keys_def get_output_size_def)

section \<open>Passes of the layers without computation\<close>

text \<open>
  Claim C10. For an \<^verbatim>\<open>InputLayer\<close> and a \<^verbatim>\<open>NoOpLayer\<close>, \<^verbatim>\<open>forward_pass\<close> and
  \<^verbatim>\<open>backward_pass\<close> return normally whatever the handler field holds, \<^verbatim>\<open>None\<close> included,
  and leave the layer and every buffer they were given as they were.
\<close>

theorem InputLayer_NoOpLayer_passes_do_nothing:
  assumes "cls self = C_InputLayer \<or> cls self = C_NoOpLayer"
  shows "forward_pass self a = Done (self, a) \<and> backward_pass self g = Done (self, g)"
  using assms
  by (auto simp: forward_pass_def backward_pass_def LayerBase_forward_pass_def
      LayerBase_backward_pass_def)

lemma InputLayer_init_fresh:
  "(InputLayer_init sz insz sinks sources kw :: error + 'a layer) = Inr self \<Longrightarrow>
     cls self = C_InputLayer \<and> handler self = None"
  by (auto simp: InputLayer_init_def LayerBase_init_def split: option.splits if_splits)

lemma NoOpLayer_init_fresh:
  "(NoOpLayer_init sz insz sinks sources kw :: error + 'a layer) = Inr self \<Longrightarrow>
     cls self = C_NoOpLayer \<and> handler self = None"
  by (auto simp: NoOpLayer_init_def LayerBase_init_def split: option.splits if_splits)

theorem InputLayer_NoOpLayer_passes_do_nothing_witness:
  "\<exists>self. (NoOpLayer_init (Some 4) (Some 4) [] [] [] :: error + int layer) = Inr self
     \<and> cls self = C_NoOpLayer \<and> handler self = None
     \<and> forward_pass self (example_forward [9, 9, 9, 9])
         = Done (self, example_forward [9, 9, 9, 9])
     \<and> backward_pass self (example_backward [1, 2, 3, 4])
         = Done (self, example_backward [1, 2, 3, 4])"
proof -
  obtain self where made:
    "(NoOpLayer_init (Some 4) (Some 4) [] [] [] :: error + int layer) = Inr self"
    by (simp add: NoOpLayer_init_def LayerBase_init_def validate_kwargs_def
        LayerBase_validate_kwargs_def)
  from NoOpLayer_init_fresh [OF made]
  have fresh: "cls self = C_NoOpLayer" "handler self = None" by simp_all
  from fresh(1) have "cls self = C_InputLayer \<or> cls self = C_NoOpLayer" by simp
  from InputLayer_NoOpLayer_passes_do_nothing [OF this] made fresh
  show ?thesis by simp
qed

section \<open>The registry\<close>

lemma get_inheritors_smaller:
  "c \<in> set (get_inheritors C) \<Longrightarrow> size c < size C"
proof (induction C arbitrary: c)
  case (PyClass n subs)
  then obtain d where d: "d \<in> set subs" "c = d \<or> c \<in> set (get_inheritors d)" by auto
  have "size d < size (PyClass n subs)"
    using d(1) by (simp add: size_list_estimation' less_Suc_eq_le)
  moreover have "size c \<le> size d" using d PyClass.IH [of d c] by auto
  ultimately show ?case by simp
qed

lemma first_named_found:
  "c \<in> set cs \<Longrightarrow> \<exists>c'. first_named (name c) cs = Inr c' \<and> name c' = name c \<and> c' \<in> set cs"
  by (induction cs) auto

lemma first_named_result:
  "first_named n cs = Inr c' \<Longrightarrow> name c' = n \<and> c' \<in> set cs"
  by (induction cs) (auto split: if_splits)

lemma first_named_unknown:
  "n \<notin> name ` set cs \<Longrightarrow> first_named n cs = Inl (TypeError (Layer_type_unknown n))"
  by (induction cs) auto

text \<open>
  Claim C9. For the name of every class among the inheritors of \<^verbatim>\<open>LayerBase\<close>,
  \<^verbatim>\<open>get_layer_class_from_typename\<close> returns one of the inheritors whose name is exactly
  the name asked for; for every other name it raises the \<^verbatim>\<open>TypeError\<close>
  "Layer-type unknown" carrying that name; and it never returns \<^verbatim>\<open>LayerBase\<close> itself.
\<close>

theorem registry_lookup:
  "(\<forall>c \<in> set (get_inheritors LayerBase).
      \<exists>c'. get_layer_class_from_typename LayerBase (name c) = Inr c' \<and> name c' = name c
         \<and> c' \<in> set (get_inheritors LayerBase))
   \<and> (n \<notin> name ` set (get_inheritors LayerBase) \<longrightarrow>
        get_layer_class_from_typename LayerBase n = Inl (TypeError (Layer_type_unknown n)))
   \<and> get_layer_class_from_typename LayerBase n \<noteq> Inr LayerBase"
proof (intro conjI ballI impI)
  fix c assume "c \<in> set (get_inheritors LayerBase)"
  then show "\<exists>c'. get_layer_class_from_typename LayerBase (name c) = Inr c' \<and> name c' = name c
         \<and> c' \<in> set (get_inheritors LayerBase)"
    unfolding get_layer_class_from_typename_def by (rule first_named_found)
next
  assume "n \<notin> name ` set (get_inheritors LayerBase)"
  then show "get_layer_class_from_typename LayerBase n = Inl (TypeError (Layer_type_unknown n))"
    unfolding get_layer_class_from_typename_def by (rule first_named_unknown)
next
  show "get_layer_class_from_typename LayerBase n \<noteq> Inr LayerBase"
  proof
    assume "get_layer_class_from_typename LayerBase n = Inr LayerBase"
    then have "LayerBase \<in> set (get_inheritors LayerBase)"
      unfolding get_layer_class_from_typename_def by (auto dest: first_named_result)
    then show False by (auto dest: get_inheritors_smaller)
  qed
qed

theorem registry_lookup_witness:
  "PyClass ''NoOpLayer'' [] \<in> set (get_inheritors LayerBase_class)
   \<and> (\<exists>c'. get_layer_class_from_typename LayerBase_class ''NoOpLayer'' = Inr c'
         \<and> name c' = ''NoOpLayer'')
   \<and> ''noop'' \<notin> name ` set (get_inheritors LayerBase_class)
   \<and> get_layer_class_from_typename LayerBase_class ''noop''
       = Inl (TypeError (Layer_type_unknown ''noop''))
   \<and> ''LayerBase'' \<notin> name ` set (get_inheritors LayerBase_class)
   \<and> get_layer_class_from_typename LayerBase_class ''LayerBase''
       = Inl (TypeError (Layer_type_unknown ''LayerBase''))"
proof -
  have inh: "get_inheritors LayerBase_class
    = [PyClass ''InputLayer'' [], PyClass ''NoOpLayer'' [], PyClass ''FeedForwardLayer'' []]"
    by (simp add: LayerBase_class_def)
  have member: "PyClass ''NoOpLayer'' [] \<in> set (get_inheritors LayerBase_class)"
    by (simp add: inh)
  have no1: "''noop'' \<notin> name ` set (get_inheritors LayerBase_class)" by (simp add: inh)
  have no2: "''LayerBase'' \<notin> name ` set (get_inheritors LayerBase_class)" by (simp add: inh)
  from registry_lookup [of LayerBase_class "''noop''"] registry_lookup [of LayerBase_class "''LayerBase''"]
    member no1 no2
  show ?thesis by fastforce
qed

section \<open>The fully connected layer\<close>

subsection \<open>Row-major tables\<close>

lemma table_0: "table 0 m g = []"
  by (simp add: table_def)

lemma table_Suc: "table (Suc n) m g = table n m g @ map (g n) [0..<m]"
  by (simp add: table_def)

lemma length_table: "length (table n m g) = n * m"
  by (induction n) (simp_all add: table_0 table_Suc)

lemma table_nth:
  "i < n \<Longrightarrow> j < m \<Longrightarrow> table n m g ! (i * m + j) = g i j"
proof (induction n)
  case 0
  then show ?case by simp
next
  case (Suc n)
  show ?case
  proof (cases "i < n")
    case True
    then have "Suc i \<le> n" by simp
    then have "Suc i * m \<le> n * m" by (rule mult_le_mono1)
    with Suc.prems(2) have "i * m + j < n * m" by simp
    with True Suc show ?thesis by (simp add: table_Suc nth_append length_table)
  next
    case False
    with Suc.prems(1) have "i = n" by simp
    with Suc.prems(2) show ?thesis by (simp add: table_Suc nth_append length_table)
  qed
qed

lemma table_cong:
  assumes "\<And>i j. i < n \<Longrightarrow> j < m \<Longrightarrow> g i j = h i j"
  shows "table n m g = table n m h"
proof -
  have "map (\<lambda>i. map (g i) [0..<m]) [0..<n] = map (\<lambda>i. map (h i) [0..<m]) [0..<n]"
    using assms by (intro map_cong refl) simp_all
  then show ?thesis unfolding table_def by (rule arg_cong)
qed

lemma map_table: "map f (table n m g) = table n m (\<lambda>i j. f (g i j))"
  by (simp add: table_def map_concat comp_def)

lemma sum_list_upt_cong:
  "(\<And>l. l < k \<Longrightarrow> g l = h l) \<Longrightarrow> sum_list (map g [0..<k]) = sum_list (map h [0..<k])"
  by (rule arg_cong [where f = sum_list]) (simp cong: map_cong)

lemma matmul_T_right:
  "matmul n k m A (table k m (\<lambda>j i. W ! (i * k + j))) = times_transposed n k m A W"
  unfolding matmul_def times_transposed_def
  by (intro table_cong sum_list_upt_cong) (simp add: table_nth)

lemma matmul_T_left:
  "matmul k n m (table k n (\<lambda>j i. X ! (i * k + j))) B = transposed_times n k m X B"
  unfolding matmul_def transposed_times_def
  by (intro table_cong sum_list_upt_cong) (simp add: table_nth)

lemma length_times_transposed: "length (times_transposed n k m A B) = n * m"
  by (simp add: times_transposed_def length_table)

lemma upt_small:
  "[0..<1] = [0]" "[0..<2] = [0, 1]" "[0..<3] = [0, 1, 2]" "[0..<4] = [0, 1, 2, 3]"
  by code_simp+

lemmas pass_defs =
  forward_pass_def FeedForwardLayer_forward_pass_def backward_pass_def
  FeedForwardLayer_backward_pass_def or_raise_def getitem_def unpack3_def getattr_def
  dimension_def H_reshape_def H_zeros_def H_dot_def H_dot_add_def H_add_mv_def H_sum_def
  T_def write_through_def call_act_func_def call_method_def call_act_func_deriv_def
  call_deriv_method_def

subsection \<open>The passes with an activation of the handler\<close>

text \<open>
  With \<^verbatim>\<open>sigmoid\<close>, \<^verbatim>\<open>tanh\<close> or \<^verbatim>\<open>rel\<close> bound, the forward pass of a layer on an input
  of shape \<open>(t, b, f)\<close> returns with \<open>act_func (input \<cdot> W + b)\<close> in the output buffer,
  whatever the buffer held before.
\<close>

lemma forward_pass_method:
  fixes self :: "'a::semiring_0 layer"
  assumes layer: "cls self = C_FeedForwardLayer" "handler self = Some H"
      "act_func self = Act_method g" "out_size self = Some n_out"
    and W: "parameters a ''W'' = Some WX" "shape WX = [f, n_out]"
    and bias: "parameters a ''b'' = Some W_bias" "shape W_bias = [n_out]"
    and inp: "shape (input_buffer a) = [t, b, f]" "length (data (input_buffer a)) = t * b * f"
    and out: "length (data (output_buffer a)) = t * b * n_out"
  shows "forward_pass self a =
    Done (self, a\<lparr>output_buffer := (output_buffer a)\<lparr>data :=
      affine_activation g (t * b) f n_out (data (input_buffer a)) (data WX) (data W_bias)\<rparr>\<rparr>)"
proof -
  let ?X = "data (input_buffer a)"
  let ?prod = "\<lambda>r c. sum_list (map (\<lambda>l. ?X ! (r * f + l) * data WX ! (l * n_out + c)) [0..<f])"
  have step2:
    "table (t * b) n_out (\<lambda>i j. table (t * b) n_out ?prod ! (i * n_out + j) + data W_bias ! j)
      = table (t * b) n_out (\<lambda>i j. ?prod i j + data W_bias ! j)"
    by (rule table_cong) (simp add: table_nth)
  show ?thesis
    using assms
    by (simp add: forward_pass_def FeedForwardLayer_forward_pass_def or_raise_def getitem_def
        unpack3_def getattr_def dimension_def H_reshape_def H_dot_def H_add_mv_def
        write_through_def call_act_func_def call_method_def matmul_def step2 map_table
        affine_activation_def)
qed

text \<open>
  The backward pass then adds \<open>dZ \<cdot> W\<^sup>T\<close> to the input deltas and overwrites the two
  gradients with \<open>input\<^sup>T \<cdot> dZ\<close> and the column sums of \<open>dZ\<close>, where \<open>dZ\<close> is the
  derivative applied to the output and the incoming deltas.
\<close>

lemma backward_pass_method:
  fixes self :: "'a::semiring_0 layer"
  assumes layer: "cls self = C_FeedForwardLayer" "handler self = Some H"
      "act_func_deriv self = Deriv_method d" "out_size self = Some n_out"
    and W: "parameters a ''W'' = Some WX" "shape WX = [f, n_out]"
    and bias: "parameters a ''b'' = Some W_bias"
    and dW: "gradient_buffer a ''W'' = Some dWX" "shape dWX = [f, n_out]"
    and db: "gradient_buffer a ''b'' = Some dW_bias" "shape dW_bias = [n_out]"
    and inp: "shape (input_buffer a) = [t, b, f]" "length (data (input_buffer a)) = t * b * f"
    and out: "prod_list (shape (output_buffer a)) = t * b * n_out"
    and out_delta: "shape (out_delta_buffer a) = shape (output_buffer a)"
    and in_delta: "length (data (in_delta_buffer a)) = t * b * f"
  shows "backward_pass self a =
    (let dZ = map2 d (data (output_buffer a)) (data (out_delta_buffer a)) in
     Done (self, a\<lparr>
       in_delta_buffer := (in_delta_buffer a)\<lparr>data :=
         map2 (+) (data (in_delta_buffer a)) (times_transposed (t * b) n_out f dZ (data WX))\<rparr>,
       gradient_buffer := (gradient_buffer a)
         (''W'' \<mapsto> dWX\<lparr>data := transposed_times (t * b) f n_out (data (input_buffer a)) dZ\<rparr>,
          ''b'' \<mapsto> dW_bias\<lparr>data := column_sums (t * b) n_out dZ\<rparr>)\<rparr>))"
  using assms
  by (simp add: backward_pass_def FeedForwardLayer_backward_pass_def or_raise_def getitem_def
      unpack3_def getattr_def dimension_def H_reshape_def H_dot_def H_dot_add_def H_sum_def
      H_zeros_def T_def write_through_def call_act_func_deriv_def call_deriv_method_def
      matmul_T_right matmul_T_left column_sums_def Let_def)

text \<open>
  Two backward passes on the same buffers with incoming deltas \<open>D1\<close> and then \<open>D2\<close>: the
  input deltas end as the start value plus both contributions, the gradients as the
  second pass alone computes them.
\<close>

lemma backward_pass_twice_method:
  fixes self :: "'a::semiring_0 layer"
  assumes layer: "cls self = C_FeedForwardLayer" "handler self = Some H"
      "act_func_deriv self = Deriv_method d" "out_size self = Some n_out"
    and W: "parameters a ''W'' = Some WX" "shape WX = [f, n_out]"
    and bias: "parameters a ''b'' = Some W_bias"
    and dW: "gradient_buffer a ''W'' = Some dWX" "shape dWX = [f, n_out]"
    and db: "gradient_buffer a ''b'' = Some dW_bias" "shape dW_bias = [n_out]"
    and inp: "shape (input_buffer a) = [t, b, f]" "length (data (input_buffer a)) = t * b * f"
    and out: "prod_list (shape (output_buffer a)) = t * b * n_out"
    and deltas: "shape D1 = shape (output_buffer a)" "shape D2 = shape (output_buffer a)"
    and in_delta: "length (data (in_delta_buffer a)) = t * b * f"
  shows "\<exists>a1 a2.
      backward_pass self (a\<lparr>out_delta_buffer := D1\<rparr>) = Done (self, a1)
    \<and> backward_pass self (a1\<lparr>out_delta_buffer := D2\<rparr>) = Done (self, a2)
    \<and> data (in_delta_buffer a2)
        = map2 (+)
            (map2 (+) (data (in_delta_buffer a))
               (times_transposed (t * b) n_out f
                  (map2 d (data (output_buffer a)) (data D1)) (data WX)))
            (times_transposed (t * b) n_out f
               (map2 d (data (output_buffer a)) (data D2)) (data WX))
    \<and> gradient_buffer a2 ''W''
        = Some (dWX\<lparr>data := transposed_times (t * b) f n_out (data (input_buffer a))
                              (map2 d (data (output_buffer a)) (data D2))\<rparr>)
    \<and> gradient_buffer a2 ''b''
        = Some (dW_bias\<lparr>data := column_sums (t * b) n_out
                                  (map2 d (data (output_buffer a)) (data D2))\<rparr>)"
proof -
  let ?dZ1 = "map2 d (data (output_buffer a)) (data D1)"
  let ?dZ2 = "map2 d (data (output_buffer a)) (data D2)"
  let ?dWX1 = "dWX\<lparr>data := transposed_times (t * b) f n_out (data (input_buffer a)) ?dZ1\<rparr>"
  let ?db1 = "dW_bias\<lparr>data := column_sums (t * b) n_out ?dZ1\<rparr>"
  let ?a0 = "a\<lparr>out_delta_buffer := D1\<rparr>"
  let ?a1 = "?a0\<lparr>
       in_delta_buffer := (in_delta_buffer ?a0)\<lparr>data :=
         map2 (+) (data (in_delta_buffer ?a0)) (times_transposed (t * b) n_out f ?dZ1 (data WX))\<rparr>,
       gradient_buffer := (gradient_buffer ?a0)(''W'' \<mapsto> ?dWX1, ''b'' \<mapsto> ?db1)\<rparr>"
  let ?b0 = "?a1\<lparr>out_delta_buffer := D2\<rparr>"
  let ?a2 = "?b0\<lparr>
       in_delta_buffer := (in_delta_buffer ?b0)\<lparr>data :=
         map2 (+) (data (in_delta_buffer ?b0)) (times_transposed (t * b) n_out f ?dZ2 (data WX))\<rparr>,
       gradient_buffer := (gradient_buffer ?b0)
         (''W'' \<mapsto> ?dWX1\<lparr>data :=
                    transposed_times (t * b) f n_out (data (input_buffer ?b0)) ?dZ2\<rparr>,
          ''b'' \<mapsto> ?db1\<lparr>data := column_sums (t * b) n_out ?dZ2\<rparr>)\<rparr>"
  have first: "backward_pass self ?a0 = Done (self, ?a1)"
    using backward_pass_method [of self H d n_out ?a0 WX f W_bias dWX dW_bias t b] assms
    by (simp add: Let_def)
  have second: "backward_pass self ?b0 = Done (self, ?a2)"
    apply (subst backward_pass_method [of self H d n_out ?b0 WX f W_bias ?dWX1 ?db1 t b])
    using assms apply (simp_all add: Let_def length_times_transposed)
    done
  have in_delta2: "data (in_delta_buffer ?a2)
        = map2 (+) (map2 (+) (data (in_delta_buffer a))
                      (times_transposed (t * b) n_out f ?dZ1 (data WX)))
            (times_transposed (t * b) n_out f ?dZ2 (data WX))"
    by simp
  have grad_W: "gradient_buffer ?a2 ''W''
        = Some (dWX\<lparr>data := transposed_times (t * b) f n_out (data (input_buffer a)) ?dZ2\<rparr>)"
    by simp
  have grad_b: "gradient_buffer ?a2 ''b''
        = Some (dW_bias\<lparr>data := column_sums (t * b) n_out ?dZ2\<rparr>)"
    by simp
  from first second in_delta2 grad_W grad_b show ?thesis by blast
qed

text \<open>
  The two lemmas at a layer with the rectifier bound, on the example buffers.
\<close>

lemma rel_forward_example:
  "forward_pass (rel_layer example_handler 2 2) (example_batch [0, 0, 0, 0])
     = Done (rel_layer example_handler 2 2, example_batch [0, 30, 5, 42])"
  by (simp add: pass_defs matmul_def table_def rel_layer_def example_batch_def
      example_handler_def upt_small)

lemma rel_backward_example:
  "backward_pass (rel_layer example_handler 3 4) (example_backward [1, 2, 3, 4])
     = Done (rel_layer example_handler 3 4,
         (example_backward [1, 2, 3, 4])\<lparr>
            in_delta_buffer := \<lparr>shape = [1, 1, 3], data = [1, 2, 3]\<rparr>,
            gradient_buffer :=
              [''W'' \<mapsto> \<lparr>shape = [3, 4], data = [5, 10, 15, 0,  6, 12, 18, 0,  7, 14, 21, 0]\<rparr>,
               ''b'' \<mapsto> \<lparr>shape = [4], data = [1, 2, 3, 0]\<rparr>]\<rparr>)"
  by (simp add: pass_defs matmul_def table_def rel_layer_def example_backward_def
      example_handler_def identity_padded_def upt_small)

subsection \<open>The passes with the linear activation\<close>

text \<open>
  With \<^verbatim>\<open>'linear'\<close> bound, on buffers of any fitting shapes: the forward pass leaves
  \<open>input \<cdot> W + b\<close> in the output buffer and raises; the backward pass raises and
  leaves every buffer as it was.
\<close>

lemma forward_pass_lambda:
  fixes self :: "'a::semiring_0 layer"
  assumes layer: "cls self = C_FeedForwardLayer" "handler self = Some H"
      "act_func self = Act_lambda_x_x" "out_size self = Some n_out"
    and W: "parameters a ''W'' = Some WX" "shape WX = [f, n_out]"
    and bias: "parameters a ''b'' = Some W_bias" "shape W_bias = [n_out]"
    and inp: "shape (input_buffer a) = [t, b, f]" "length (data (input_buffer a)) = t * b * f"
    and out: "length (data (output_buffer a)) = t * b * n_out"
  shows "forward_pass self a =
    Raised (TypeError Lambda_takes_one_argument)
      (self, a\<lparr>output_buffer := (output_buffer a)\<lparr>data :=
         affine_activation (\<lambda>x. x) (t * b) f n_out
           (data (input_buffer a)) (data WX) (data W_bias)\<rparr>\<rparr>)"
proof -
  let ?X = "data (input_buffer a)"
  let ?prod = "\<lambda>r c. sum_list (map (\<lambda>l. ?X ! (r * f + l) * data WX ! (l * n_out + c)) [0..<f])"
  have step2:
    "table (t * b) n_out (\<lambda>i j. table (t * b) n_out ?prod ! (i * n_out + j) + data W_bias ! j)
      = table (t * b) n_out (\<lambda>i j. ?prod i j + data W_bias ! j)"
    by (rule table_cong) (simp add: table_nth)
  show ?thesis
    using assms
    by (simp add: forward_pass_def FeedForwardLayer_forward_pass_def or_raise_def getitem_def
        unpack3_def getattr_def dimension_def H_reshape_def H_dot_def H_add_mv_def
        write_through_def call_act_func_def matmul_def step2 affine_activation_def)
qed

lemma backward_pass_int_1:
  fixes self :: "'a::semiring_0 layer"
  assumes layer: "cls self = C_FeedForwardLayer" "handler self = Some H"
      "act_func_deriv self = Deriv_int_1" "out_size self = Some n_out"
    and W: "parameters a ''W'' = Some WX" and bias: "parameters a ''b'' = Some W_bias"
    and dW: "gradient_buffer a ''W'' = Some dWX" and db: "gradient_buffer a ''b'' = Some dW_bias"
    and inp: "shape (input_buffer a) = [t, b, f]" "length (data (input_buffer a)) = t * b * f"
    and out: "prod_list (shape (output_buffer a)) = t * b * n_out"
    and in_delta: "length (data (in_delta_buffer a)) = t * b * f"
  shows "backward_pass self a = Raised (TypeError Int_not_callable) (self, a)"
  using assms
  by (simp add: backward_pass_def FeedForwardLayer_backward_pass_def or_raise_def getitem_def
      unpack3_def getattr_def dimension_def H_reshape_def H_zeros_def
      call_act_func_deriv_def Let_def)

text \<open>
  Claim C1. A \<^verbatim>\<open>FeedForwardLayer\<close> made with \<^verbatim>\<open>{'act_func': 'linear'}\<close> and bound to a
  handler is asked for a forward pass on an input of shape \<open>(1, 1, 3)\<close> with \<open>W\<close> the
  padded identity and \<open>b\<close> zero, and for a backward pass. The claim expects the output
  \<open>input \<cdot> W\<close> and \<open>dZ\<close> equal to the incoming deltas. In the source the forward pass
  writes \<open>input \<cdot> W + b\<close> and then raises, because \<^verbatim>\<open>lambda x: x\<close> is called with two
  arguments; the backward pass raises before it writes anything, because the
  derivative is the integer \<^verbatim>\<open>1\<close> and is called.
\<close>

theorem linear_layer_passes_raise:
  "(\<exists>self. FeedForwardLayer_init (Some 4) (Some 3) [] [] [(''act_func'', ''linear'')] = Inr self
       \<and> set_handler self H = Done (linear_layer H 3 4))
   \<and> forward_pass (linear_layer H 3 4) (example_forward [9, 9, 9, 9])
       = Raised (TypeError Lambda_takes_one_argument)
           (linear_layer H 3 4, example_forward [5, 6, 7, 0])
   \<and> backward_pass (linear_layer H 3 4) (example_backward [1, 2, 3, 4])
       = Raised (TypeError Int_not_callable)
           (linear_layer H 3 4, example_backward [1, 2, 3, 4])"
proof (intro conjI)
  show "\<exists>self. FeedForwardLayer_init (Some 4) (Some 3) [] [] [(''act_func'', ''linear'')] = Inr self
       \<and> set_handler self H = Done (linear_layer H 3 4)"
    by (simp add: FeedForwardLayer_init_def LayerBase_init_def validate_kwargs_def
        FeedForwardLayer_validate_kwargs_def keys_def get_output_size_def set_handler_def
        FeedForwardLayer_set_handler_def get_default_def activation_functions_def
        linear_layer_def)
  show "forward_pass (linear_layer H 3 4) (example_forward [9, 9, 9, 9])
       = Raised (TypeError Lambda_takes_one_argument)
           (linear_layer H 3 4, example_forward [5, 6, 7, 0])"
    by (simp add: pass_defs matmul_def table_def linear_layer_def example_forward_def
        identity_padded_def upt_small)
  show "backward_pass (linear_layer H 3 4) (example_backward [1, 2, 3, 4])
       = Raised (TypeError Int_not_callable)
           (linear_layer H 3 4, example_backward [1, 2, 3, 4])"
    by (simp add: pass_defs linear_layer_def example_backward_def identity_padded_def)
qed

text \<open>
  Claim C3. The forward pass of every \<^verbatim>\<open>FeedForwardLayer\<close> with a bound handler computes
  \<open>act_func (input \<cdot> W + b)\<close> over the flattened leading axes. For the activations of
  the handler this is \<open>forward_pass_method\<close>. For a layer with the linear activation, on
  an input of shape \<open>(2, 1, 2)\<close>, the source leaves \<open>input \<cdot> W + b\<close> in the output buffer
  and raises a \<^verbatim>\<open>TypeError\<close> instead of returning.
\<close>

theorem linear_forward_pass_raises:
  "forward_pass (linear_layer H 2 2) (example_batch [0, 0, 0, 0])
     = Raised (TypeError Lambda_takes_one_argument)
         (linear_layer H 2 2, example_batch [- 3, 30, 5, 42])"
  by (simp add: pass_defs matmul_def table_def linear_layer_def example_batch_def upt_small)

text \<open>
  Claim C4. Two backward passes of a \<^verbatim>\<open>FeedForwardLayer\<close> in sequence, with different
  incoming deltas, accumulate both contributions in the input deltas and leave the
  gradients of the second pass. For the activations of the handler this is
  \<open>backward_pass_twice_method\<close>. For a layer with the linear activation each of the two
  passes raises a \<^verbatim>\<open>TypeError\<close> and writes nothing: the input deltas stay at their
  start value.
\<close>

theorem linear_backward_pass_twice_raises:
  "backward_pass (linear_layer H 3 4) (example_backward [1, 2, 3, 4])
     = Raised (TypeError Int_not_callable) (linear_layer H 3 4, example_backward [1, 2, 3, 4])
   \<and> backward_pass (linear_layer H 3 4)
        ((example_backward [1, 2, 3, 4])
           \<lparr>out_delta_buffer := \<lparr>shape = [1, 1, 4], data = [4, 3, 2, 1]\<rparr>\<rparr>)
     = Raised (TypeError Int_not_callable) (linear_layer H 3 4, example_backward [4, 3, 2, 1])
   \<and> in_delta_buffer (example_backward [4, 3, 2, 1]) = \<lparr>shape = [1, 1, 3], data = [0, 0, 0]\<rparr>"
  by (simp add: pass_defs linear_layer_def example_backward_def identity_padded_def)

end
